theory Spec2Isabelle
  imports Main "HOL-Library.AList"
begin

section \<open>JavaScript values used by the logger\<close>

text \<open>
  The logger (\<^verbatim>\<open>src/logger.js\<close>) is dynamically typed. The values that reach its
  configuration and the \<^verbatim>\<open>error\<close> attribute of an error event are modelled by
  \<open>jsval\<close>. Numbers are the integer-valued ones (timestamps, line numbers, durations);
  on integers below \<open>2 ^ 53\<close> in magnitude the double arithmetic of the source is exact,
  so they are \<open>int\<close>, and the theorems about arithmetic carry that bound. A function
  value carries its identity and its source text (what \<^verbatim>\<open>Function.prototype.toString\<close>
  returns); what calling it does is the page's business. An object is a plain object,
  the association list of its own properties; arrays and getters are outside the model.
\<close>

datatype jsval =
    JUndefined
  | JNull
  | JBool bool
  | JNum int
  | JStr string
  | JFun nat string
  | JObj "(string \<times> jsval) list"

datatype js_error =
    Error string
  | TypeError

text \<open>\<^verbatim>\<open>ToBoolean\<close>: what \<^verbatim>\<open>if (v)\<close>, \<^verbatim>\<open>!v\<close> and \<^verbatim>\<open>a && b\<close> test.\<close>

fun truthy :: "jsval \<Rightarrow> bool" where
  "truthy JUndefined = False"
| "truthy JNull = False"
| "truthy (JBool b) = b"
| "truthy (JNum n) = (n \<noteq> 0)"
| "truthy (JStr s) = (s \<noteq> [])"
| "truthy (JFun f src) = True"
| "truthy (JObj ps) = True"

fun typeof :: "jsval \<Rightarrow> string" where
  "typeof JUndefined = ''undefined''"
| "typeof JNull = ''object''"
| "typeof (JBool b) = ''boolean''"
| "typeof (JNum n) = ''number''"
| "typeof (JStr s) = ''string''"
| "typeof (JFun f src) = ''function''"
| "typeof (JObj ps) = ''object''"

text \<open>Reading the own property \<open>k\<close> of an object: \<^verbatim>\<open>undefined\<close> when it is absent.\<close>

definition property :: "(string \<times> jsval) list \<Rightarrow> string \<Rightarrow> jsval" where
  "property obj k = (case map_of obj k of None \<Rightarrow> JUndefined | Some v \<Rightarrow> v)"

text \<open>
  The member access \<^verbatim>\<open>v.k\<close> for the property names the logger reads
  (\<^verbatim>\<open>stack\<close>, \<^verbatim>\<open>url\<close>, \<^verbatim>\<open>enable\<close>, \<^verbatim>\<open>successCallback\<close>, \<^verbatim>\<open>errorCallback\<close>): a
  \<^verbatim>\<open>TypeError\<close> on \<^verbatim>\<open>undefined\<close> and \<^verbatim>\<open>null\<close>, \<^verbatim>\<open>undefined\<close> on a primitive or a
  function, the own property on an object.
\<close>

fun get :: "jsval \<Rightarrow> string \<Rightarrow> js_error + jsval" where
  "get JUndefined k = Inl TypeError"
| "get JNull k = Inl TypeError"
| "get (JObj ps) k = Inr (property ps k)"
| "get v k = Inr JUndefined"

section \<open>Strings and numbers\<close>

text \<open>
  \<^verbatim>\<open>Number::toString\<close> on an integer (below \<open>10 ^ 21\<close> in magnitude, where no exponent
  is printed): the decimal digits, most significant first, after a minus sign when the
  number is negative.
\<close>

fun digits :: "nat \<Rightarrow> string" where
  "digits n =
     (if 10 \<le> n then digits (n div 10) @ [''0123456789'' ! (n mod 10)]
      else [''0123456789'' ! n])"

declare digits.simps [simp del]

definition number_text :: "int \<Rightarrow> string" where
  "number_text i = (if 0 \<le> i then digits (nat i) else CHR ''-'' # digits (nat (- i)))"

text \<open>\<^verbatim>\<open>Array.prototype.join\<close> on an array of strings.\<close>

fun join :: "string \<Rightarrow> string list \<Rightarrow> string" where
  "join sep [] = []"
| "join sep [x] = x"
| "join sep (x # y # ys) = x @ sep @ join sep (y # ys)"

text \<open>
  The remainder operator \<^verbatim>\<open>%\<close> of JavaScript truncates towards zero: the result has
  the sign of the dividend.
\<close>

definition js_rem :: "int \<Rightarrow> int \<Rightarrow> int" where
  "js_rem a b = sgn a * (\<bar>a\<bar> mod \<bar>b\<bar>)"

section \<open>The duration formatter: \<^verbatim>\<open>_parseVisitorTime\<close>\<close>

record time_unit =
  label :: string
  modulus :: int

definition units :: "time_unit list" where
  "units =
     [\<lparr>label = ''ms'', modulus = 1000\<rparr>,
      \<lparr>label = ''seconds'', modulus = 60\<rparr>,
      \<lparr>label = ''minutes'', modulus = 60\<rparr>,
      \<lparr>label = ''hours'', modulus = 24\<rparr>,
      \<lparr>label = ''days'', modulus = 31\<rparr>]"

text \<open>
  The body of the \<^verbatim>\<open>forEach\<close> callback,
  \<^verbatim>\<open>ms = (ms - (duration[u.label] = (ms % u.mod))) / u.mod\<close>,
  on the pair of the running \<^verbatim>\<open>ms\<close> and the \<^verbatim>\<open>duration\<close> object. The difference is a
  multiple of the modulus, so the division is exact. The source computes in doubles:
  this integer arithmetic is what it computes for an input below \<open>2 ^ 53\<close> in magnitude,
  where the remainder, the difference and the quotient are integers that doubles hold
  exactly; from \<open>2 ^ 53\<close> on the source rounds and the two differ.
\<close>

definition unit_step :: "time_unit \<Rightarrow> int \<times> (string \<rightharpoonup> int) \<Rightarrow> int \<times> (string \<rightharpoonup> int)" where
  "unit_step u st =
     (let ms = fst st;
          duration = snd st;
          r = js_rem ms (modulus u)
      in ((ms - r) div modulus u, duration(label u \<mapsto> r)))"

text \<open>The numeric properties of the \<^verbatim>\<open>duration\<close> object that \<^verbatim>\<open>_parseVisitorTime\<close> returns.\<close>

definition parseVisitorTime :: "int \<Rightarrow> (string \<rightharpoonup> int)" where
  "parseVisitorTime ms = snd (fold unit_step units (ms, Map.empty))"

definition nonZero :: "(string \<rightharpoonup> int) \<Rightarrow> time_unit \<Rightarrow> bool" where
  "nonZero duration u = (case duration (label u) of None \<Rightarrow> False | Some v \<Rightarrow> v \<noteq> 0)"

text \<open>
  The \<^verbatim>\<open>map\<close> callback of \<^verbatim>\<open>duration.toString\<close>:
  \<^verbatim>\<open>duration[u.label] + ' ' + (duration[u.label] == 1 ? u.label.slice(0, -1) : u.label)\<close>.
\<close>

definition render_unit :: "(string \<rightharpoonup> int) \<Rightarrow> time_unit \<Rightarrow> string" where
  "render_unit duration u =
     (case duration (label u) of None \<Rightarrow> ''undefined'' | Some v \<Rightarrow> number_text v)
       @ '' ''
       @ (if duration (label u) = Some 1 then butlast (label u) else label u)"

text \<open>
  \<^verbatim>\<open>duration.toString\<close>, a closure over \<^verbatim>\<open>units\<close> and \<^verbatim>\<open>duration\<close>. The call
  \<^verbatim>\<open>units.reverse()\<close> reverses the array in place, so the function returns the text
  together with the array it leaves behind.
\<close>

definition duration_toString ::
  "time_unit list \<Rightarrow> (string \<rightharpoonup> int) \<Rightarrow> string \<times> time_unit list" where
  "duration_toString us duration =
     (let reversed = rev us
      in (join '', '' (map (render_unit duration) (filter (nonZero duration) reversed)), reversed))"

text \<open>
  The text of \<^verbatim>\<open>'...' + self._parseVisitorTime(ms)\<close>: the first string conversion of the
  returned object, as \<^verbatim>\<open>_showError\<close> performs it.
\<close>

definition visitorTimeText :: "int \<Rightarrow> string" where
  "visitorTimeText ms = fst (duration_toString units (parseVisitorTime ms))"

section \<open>JSON serialisation\<close>

text \<open>
  The values \<^verbatim>\<open>JSON.stringify\<close> is applied to: an array of strings and the flat error
  record. No white space is emitted.
\<close>

datatype json =
    JsonStr string
  | JsonNum int
  | JsonArr "json list"
  | JsonObj "(string \<times> json) list"

text \<open>
  \<^verbatim>\<open>QuoteJSONString\<close>: the quote and the backslash are escaped, control characters
  below 0x20 get their short escape or \<^verbatim>\<open>\u00XX\<close> in lower-case hexadecimal.
\<close>

definition json_escape :: "char \<Rightarrow> string" where
  "json_escape c =
     (if c = CHR 0x22 then [CHR 0x5C, CHR 0x22]
      else if c = CHR 0x5C then [CHR 0x5C, CHR 0x5C]
      else if c = CHR 0x08 then [CHR 0x5C, CHR ''b'']
      else if c = CHR 0x0C then [CHR 0x5C, CHR ''f'']
      else if c = CHR 0x0A then [CHR 0x5C, CHR ''n'']
      else if c = CHR 0x0D then [CHR 0x5C, CHR ''r'']
      else if c = CHR 0x09 then [CHR 0x5C, CHR ''t'']
      else if (of_char c :: nat) < 32 then
        [CHR 0x5C, CHR ''u'', CHR ''0'', CHR ''0'',
         ''0123456789abcdef'' ! ((of_char c :: nat) div 16),
         ''0123456789abcdef'' ! ((of_char c :: nat) mod 16)]
      else [c])"

definition json_quote :: "string \<Rightarrow> string" where
  "json_quote s = [CHR 0x22] @ concat (map json_escape s) @ [CHR 0x22]"

fun stringify :: "json \<Rightarrow> string" where
  "stringify (JsonStr s) = json_quote s"
| "stringify (JsonNum n) = number_text n"
| "stringify (JsonArr xs) = ''['' @ join '','' (map stringify xs) @ '']''"
| "stringify (JsonObj ps) =
     ''{'' @ join '','' (map (\<lambda>p. json_quote (fst p) @ '':'' @ stringify (snd p)) ps) @ ''}''"

text \<open>
  \<^verbatim>\<open>String.prototype.split('\n')\<close>: the substrings between line feeds; the empty string
  gives one empty substring.
\<close>

fun split_lines :: "string \<Rightarrow> string list" where
  "split_lines [] = [[]]"
| "split_lines (c # cs) =
     (if c = CHR 0x0A then [] # split_lines cs
      else (case split_lines cs of [] \<Rightarrow> [[c]] | l # ls \<Rightarrow> (c # l) # ls))"

section \<open>The logger and the page it runs in\<close>

text \<open>
  The state the logger reads and writes: its own \<^verbatim>\<open>startTime\<close> (\<open>None\<close> is
  \<^verbatim>\<open>null\<close>) and \<^verbatim>\<open>config\<close>, the identity of its closure \<^verbatim>\<open>_errorListener\<close>, and the
  list of listeners registered on \<^verbatim>\<open>window\<close> for the \<^verbatim>\<open>error\<close> event.
\<close>

record state =
  startTime :: "int option"
  config :: "(string \<times> jsval) list"
  handler :: nat
  listeners :: "nat list"

text \<open>The constructor: \<^verbatim>\<open>new ErrorLogger()\<close> in a page with listeners \<open>ls\<close>.\<close>

definition ErrorLogger :: "nat \<Rightarrow> nat list \<Rightarrow> state" where
  "ErrorLogger h ls =
     \<lparr>startTime = None,
      config =
        [(''detailedErrors'', JBool True),
         (''remoteLogging'',
            JObj [(''enable'', JBool False),
                  (''url'', JNull),
                  (''successCallback'', JFun 0 ''function () {}''),
                  (''errorCallback'', JFun 1 ''function () {}'')])],
      handler = h,
      listeners = ls\<rparr>"

text \<open>
  What the readings of the platform give while one event is handled: \<^verbatim>\<open>Date.now()\<close>,
  \<^verbatim>\<open>new Date().toString()\<close>, the sizes of the document element and of the window
  (\<open>None\<close> where the window does not define them), and, for every function value of
  the page, what calling it as a \<^verbatim>\<open>toString\<close> method gives: the error it throws or the
  string it returns. The sample pages of the examples below take \<open>Inr \<circ> digits\<close> for
  it: there a function returns the decimal text of its identity.
\<close>

record env =
  now :: int
  date_string :: string
  clientWidth :: int
  clientHeight :: int
  innerWidth :: "int option"
  innerHeight :: "int option"
  method_result :: "nat \<Rightarrow> js_error + string"

text \<open>The attributes of the platform's error event that the logger reads.\<close>

record error_event =
  ev_type :: string
  ev_message :: string
  filename :: string
  lineno :: int
  colno :: int
  error :: jsval

text \<open>The object \<^verbatim>\<open>_parseError\<close> returns.\<close>

record error_record =
  type :: string
  message :: string
  path :: string
  line :: int
  column :: int
  stackTrace :: string
  viewport :: string
  timeSpend :: int
  datetime :: string

text \<open>What the logger does to the outside: console output, the request, the callbacks.\<close>

datatype effect =
    ConsoleLog string
  | XhrOpen string jsval bool
  | XhrSetRequestHeader string string
  | XhrSend string
  | SuccessCallback nat
  | ErrorCallback nat

subsection \<open>Initialisation\<close>

text \<open>
  \<^verbatim>\<open>Object.assign(target, source)\<close>, as the polyfill of the source spells it out: for
  every own key of the source, \<^verbatim>\<open>target[key] = source[key]\<close>.
\<close>

definition assign :: "(string \<times> jsval) list \<Rightarrow> (string \<times> jsval) list \<Rightarrow> (string \<times> jsval) list" where
  "assign target source =
     fold (\<lambda>key t. AList.update key (property source key) t) (map fst source) target"

text \<open>The own enumerable properties of a value that passed \<^verbatim>\<open>typeof options === 'object'\<close>.\<close>

fun own_properties :: "jsval \<Rightarrow> (string \<times> jsval) list" where
  "own_properties (JObj ps) = ps"
| "own_properties v = []"

text \<open>
  The platform's listener list holds a listener at most once:
  \<^verbatim>\<open>addEventListener\<close> appends it unless it is there, \<^verbatim>\<open>removeEventListener\<close> removes it.
\<close>

definition removeEventListener :: "nat \<Rightarrow> nat list \<Rightarrow> nat list" where
  "removeEventListener h ls = remove1 h ls"

definition addEventListener :: "nat \<Rightarrow> nat list \<Rightarrow> nat list" where
  "addEventListener h ls = (if h \<in> set ls then ls else ls @ [h])"

definition init :: "int \<Rightarrow> jsval \<Rightarrow> state \<Rightarrow> state" where
  "init t options s =
     s\<lparr>config :=
         (if truthy options \<and> typeof options = ''object''
          then assign (config s) (own_properties options)
          else config s),
       startTime := Some t,
       listeners := addEventListener (handler s) (removeEventListener (handler s) (listeners s))\<rparr>"

text \<open>Successive calls of \<^verbatim>\<open>init\<close>, each with the time it reads and its options.\<close>

definition inits :: "(int \<times> jsval) list \<Rightarrow> state \<Rightarrow> state" where
  "inits calls s = fold (\<lambda>c. init (fst c) (snd c)) calls s"

subsection \<open>Enrichment\<close>

definition getViewport :: "env \<Rightarrow> string" where
  "getViewport ev =
     (let w = max (clientWidth ev) (case innerWidth ev of None \<Rightarrow> 0 | Some v \<Rightarrow> v);
          h = max (clientHeight ev) (case innerHeight ev of None \<Rightarrow> 0 | Some v \<Rightarrow> v)
      in number_text w @ ''x'' @ number_text h)"

text \<open>
  \<^verbatim>\<open>Date.now() - self.startTime\<close>: the subtraction converts \<^verbatim>\<open>null\<close> to \<open>0\<close>; nothing
  here can raise.
\<close>

definition getTimeOnPage :: "int \<Rightarrow> state \<Rightarrow> int" where
  "getTimeOnPage t s = t - (case startTime s of None \<Rightarrow> 0 | Some t0 \<Rightarrow> t0)"

text \<open>
  The method call \<^verbatim>\<open>v.toString()\<close>. A primitive and a function use the method of their
  prototype. An object uses its own \<^verbatim>\<open>toString\<close> property when it has one: a function
  there is called, with the outcome \<open>run\<close> gives for it, and any other value there
  cannot be called; without the property the object inherits
  \<^verbatim>\<open>Object.prototype.toString\<close>.
\<close>

fun toString :: "(nat \<Rightarrow> js_error + string) \<Rightarrow> jsval \<Rightarrow> js_error + string" where
  "toString run JUndefined = Inl TypeError"
| "toString run JNull = Inl TypeError"
| "toString run (JBool b) = Inr (if b then ''true'' else ''false'')"
| "toString run (JNum n) = Inr (number_text n)"
| "toString run (JStr s) = Inr s"
| "toString run (JFun f src) = Inr src"
| "toString run (JObj ps) =
     (case map_of ps ''toString'' of
        None \<Rightarrow> Inr ''[object Object]''
      | Some (JFun f src) \<Rightarrow> run f
      | Some v \<Rightarrow> Inl TypeError)"

text \<open>
  \<^verbatim>\<open>var error = ''; if (e.error) { error = e.error.stack.toString(); }\<close>
\<close>

definition stack_of :: "(nat \<Rightarrow> js_error + string) \<Rightarrow> jsval \<Rightarrow> js_error + string" where
  "stack_of run v =
     (if truthy v
      then (case get v ''stack'' of Inl x \<Rightarrow> Inl x | Inr st \<Rightarrow> toString run st)
      else Inr [])"

definition parseError :: "env \<Rightarrow> state \<Rightarrow> error_event \<Rightarrow> js_error + error_record" where
  "parseError ev s e =
     (let dt = date_string ev;
          vp = getViewport ev;
          visitorTimeOnPage = getTimeOnPage (now ev) s
      in case stack_of (method_result ev) (error e) of
           Inl x \<Rightarrow> Inl x
         | Inr err \<Rightarrow>
             Inr \<lparr>type = ev_type e,
                  message = ev_message e,
                  path = filename e,
                  line = lineno e,
                  column = colno e,
                  stackTrace = err,
                  viewport = vp,
                  timeSpend = visitorTimeOnPage,
                  datetime = dt\<rparr>)"

subsection \<open>The console sink\<close>

definition showError :: "error_record \<Rightarrow> effect list" where
  "showError e =
     [ConsoleLog (join [CHR 0x0A]
        [''Type: '' @ type e,
         ''Error: '' @ message e,
         ''StackTrace: '' @ stackTrace e,
         ''Path: '' @ path e,
         ''Line: '' @ number_text (line e),
         ''Column: '' @ number_text (column e),
         ''Debug: '' @ path e @ '':'' @ number_text (line e),
         ''Viewport: '' @ viewport e,
         ''Visitor time on page: '' @ visitorTimeText (timeSpend e),
         ''Date: '' @ datetime e])]"

subsection \<open>The remote sink\<close>

text \<open>The object \<^verbatim>\<open>JSON.stringify(e)\<close> serialises: the record's properties in order.\<close>

definition record_json :: "error_record \<Rightarrow> json" where
  "record_json e =
     JsonObj
       [(''type'', JsonStr (type e)),
        (''message'', JsonStr (message e)),
        (''path'', JsonStr (path e)),
        (''line'', JsonNum (line e)),
        (''column'', JsonNum (column e)),
        (''stackTrace'', JsonStr (stackTrace e)),
        (''viewport'', JsonStr (viewport e)),
        (''timeSpend'', JsonNum (timeSpend e)),
        (''datetime'', JsonStr (datetime e))]"

text \<open>\<^verbatim>\<open>self.config.remoteLogging.k\<close>.\<close>

definition remote_option :: "(string \<times> jsval) list \<Rightarrow> string \<Rightarrow> js_error + jsval" where
  "remote_option cfg k = get (property cfg ''remoteLogging'') k"

text \<open>
  \<^verbatim>\<open>_remoteLogging(e)\<close> mutates the record it is given, so the model returns the record
  as the call leaves it, the effects in order, and whether the call returned or threw.
\<close>

definition remoteLogging ::
  "(string \<times> jsval) list \<Rightarrow> error_record \<Rightarrow> error_record \<times> effect list \<times> (js_error + unit)" where
  "remoteLogging cfg e =
     (case remote_option cfg ''url'' of
        Inl x \<Rightarrow> (e, [], Inl x)
      | Inr url \<Rightarrow>
          if \<not> truthy url then (e, [], Inl (Error ''Provide remote URL to log errors.''))
          else
            (let e' = e\<lparr>stackTrace :=
                         stringify (JsonArr (map JsonStr (split_lines (stackTrace e))))\<rparr>
             in (e',
                 [XhrOpen ''POST'' url True,
                  XhrSetRequestHeader ''Content-type'' ''application/json;charset=UTF-8'',
                  XhrSend (stringify (record_json e'))],
                 Inr ())))"

text \<open>Calling a configured callback: a value that is not a function cannot be called.\<close>

definition call :: "(nat \<Rightarrow> effect) \<Rightarrow> jsval \<Rightarrow> effect list \<times> (js_error + unit)" where
  "call tag v = (case v of JFun f src \<Rightarrow> ([tag f], Inr ()) | _ \<Rightarrow> ([], Inl TypeError))"

definition error_branch :: "(string \<times> jsval) list \<Rightarrow> effect list \<times> (js_error + unit)" where
  "error_branch cfg =
     (case remote_option cfg ''errorCallback'' of
        Inl x \<Rightarrow> ([], Inl x)
      | Inr ec \<Rightarrow> if truthy ec then call ErrorCallback ec else ([], Inr ()))"

text \<open>
  The handler \<^verbatim>\<open>xhr.onreadystatechange\<close>, run with the request's \<^verbatim>\<open>readyState\<close> and
  \<^verbatim>\<open>status\<close> and the configuration as it is at that moment. The operator \<^verbatim>\<open>&&\<close> reads
  the success callback only when the status is 200.
\<close>

definition onreadystatechange ::
  "(string \<times> jsval) list \<Rightarrow> nat \<Rightarrow> nat \<Rightarrow> effect list \<times> (js_error + unit)" where
  "onreadystatechange cfg readyState status =
     (if readyState = 4 then
        (if status = 200 then
           (case remote_option cfg ''successCallback'' of
              Inl x \<Rightarrow> ([], Inl x)
            | Inr sc \<Rightarrow> if truthy sc then call SuccessCallback sc else error_branch cfg)
         else error_branch cfg)
      else ([], Inr ()))"

subsection \<open>The listener\<close>

definition errorListener :: "env \<Rightarrow> state \<Rightarrow> error_event \<Rightarrow> effect list \<times> (js_error + unit)" where
  "errorListener ev s e0 =
     (case parseError ev s e0 of
        Inl x \<Rightarrow> ([], Inl x)
      | Inr e \<Rightarrow>
          (let shown = (if truthy (property (config s) ''detailedErrors'') then showError e else [])
           in case remote_option (config s) ''enable'' of
                Inl x \<Rightarrow> (shown, Inl x)
              | Inr en \<Rightarrow>
                  if truthy en
                  then (shown @ fst (snd (remoteLogging (config s) e)),
                        snd (snd (remoteLogging (config s) e)))
                  else (shown, Inr ())))"




fun is_network :: "effect \<Rightarrow> bool" where
  "is_network (XhrOpen m u a) = True"
| "is_network (XhrSetRequestHeader k v) = True"
| "is_network (XhrSend b) = True"
| "is_network x = False"

section \<open>Properties of the duration formatter\<close>

lemma js_rem_nonneg: "0 \<le> a \<Longrightarrow> 0 < b \<Longrightarrow> js_rem a b = a mod b"
  by (cases "a = 0") (simp_all add: js_rem_def)

lemma exact_quotient: "(a - a mod b) div b = a div (b::int)"
  by (simp add: minus_mod_eq_div_mult)

lemma cascade_values:
  assumes "0 \<le> ms" and "ms < 2 ^ 53"
  shows "parseVisitorTime ms =
           [''ms'' \<mapsto> ms mod 1000,
            ''seconds'' \<mapsto> ms div 1000 mod 60,
            ''minutes'' \<mapsto> ms div 1000 div 60 mod 60,
            ''hours'' \<mapsto> ms div 1000 div 60 div 60 mod 24,
            ''days'' \<mapsto> ms div 1000 div 60 div 60 div 24 mod 31]"
proof -
  have q1: "0 \<le> ms div 1000" using assms by simp
  have q2: "0 \<le> ms div 1000 div 60" using q1 by simp
  have q3: "0 \<le> ms div 1000 div 60 div 60" using q2 by simp
  have q4: "0 \<le> ms div 1000 div 60 div 60 div 24" using q3 by simp
  show ?thesis
    by (simp add: parseVisitorTime_def units_def unit_step_def Let_def
        js_rem_nonneg exact_quotient assms(1) q1 q2 q3 q4)
qed

text \<open>
  Claim C3, as the code has it. For every non-negative integer input below \<open>2 ^ 53\<close>,
  the range in which the source's double arithmetic is exact, the cascade stores
  \<open>ms\<close> in \<open>[0, 1000)\<close>, \<open>seconds\<close> and \<open>minutes\<close> in \<open>[0, 60)\<close>, \<open>hours\<close> in
  \<open>[0, 24)\<close>, and \<open>days\<close> as the number of whole days reduced modulo 31, so in
  \<open>[0, 31)\<close>: the last unit of the table has the modulus 31 like the others have
  theirs, and the quotient left after it is dropped.
\<close>

theorem duration_components:
  "0 \<le> ms \<Longrightarrow> ms < 2 ^ 53 \<Longrightarrow>
     parseVisitorTime ms ''ms'' = Some (ms mod 1000)
   \<and> parseVisitorTime ms ''seconds'' = Some (ms div 1000 mod 60)
   \<and> parseVisitorTime ms ''minutes'' = Some (ms div 60000 mod 60)
   \<and> parseVisitorTime ms ''hours'' = Some (ms div 3600000 mod 24)
   \<and> parseVisitorTime ms ''days'' = Some (ms div 86400000 mod 31)
   \<and> parseVisitorTime ms ''ms'' \<in> Some ` {0..<1000}
   \<and> parseVisitorTime ms ''seconds'' \<in> Some ` {0..<60}
   \<and> parseVisitorTime ms ''minutes'' \<in> Some ` {0..<60}
   \<and> parseVisitorTime ms ''hours'' \<in> Some ` {0..<24}
   \<and> parseVisitorTime ms ''days'' \<in> Some ` {0..<31}"
  by (simp add: cascade_values zdiv_zmult2_eq [symmetric])

theorem duration_components_witness:
  "(0::int) \<le> 90061001 \<and> (90061001::int) < 2 ^ 53
   \<and> parseVisitorTime 90061001 ''ms'' = Some 1
   \<and> parseVisitorTime 90061001 ''seconds'' = Some 1
   \<and> parseVisitorTime 90061001 ''minutes'' = Some 1
   \<and> parseVisitorTime 90061001 ''hours'' = Some 1
   \<and> parseVisitorTime 90061001 ''days'' = Some 1"
  using duration_components [of 90061001] by simp

text \<open>
  The claim as stated has the days component equal to the whole quotient. At 31 days
  (2678400000 ms) the quotient is 31 and the stored component is 0.
\<close>

theorem days_reduced_counterexample:
  "(0::int) \<le> 2678400000 \<and> (2678400000::int) < 2 ^ 53
   \<and> parseVisitorTime 2678400000 ''days'' = Some 0 \<and> (2678400000::int) div 86400000 = 31"
  by (simp add: parseVisitorTime_def units_def unit_step_def Let_def js_rem_def)

text \<open>
  Claim C4, as the code has it. The input 1500 leaves 500 in the \<open>ms\<close> component, which
  is not zero and so is rendered too: the text is \<open>1 second, 500 ms\<close>.
\<close>

theorem visitorTimeText_1500: "visitorTimeText 1500 = ''1 second, 500 ms''"
  by code_simp

theorem visitorTimeText_1500_counterexample: "visitorTimeText 1500 \<noteq> ''1 second''"
  by code_simp

section \<open>Properties of the remote sink\<close>

text \<open>
  Claim C1, as the code has it. When a request completes (\<^verbatim>\<open>readyState\<close> 4) and the
  remote configuration can be read, the success callback is invoked exactly when the
  status is 200 and the configured value is a function; the error callback is invoked
  exactly when the success branch was not taken (the status is not 200, or no success
  callback is set) and the configured value is a function; at most one callback is
  invoked in all, so never both and never twice; and in every other \<^verbatim>\<open>readyState\<close> the
  handler does nothing.
\<close>

theorem completion_callbacks:
  assumes "remote_option cfg ''successCallback'' = Inr sc"
    and "remote_option cfg ''errorCallback'' = Inr ec"
  shows "(\<exists>f. SuccessCallback f \<in> set (fst (onreadystatechange cfg 4 status)))
           = (status = 200 \<and> typeof sc = ''function'')
       \<and> (\<exists>g. ErrorCallback g \<in> set (fst (onreadystatechange cfg 4 status)))
           = (\<not> (status = 200 \<and> truthy sc) \<and> typeof ec = ''function'')
       \<and> length (fst (onreadystatechange cfg 4 status)) \<le> 1
       \<and> (readyState \<noteq> 4 \<longrightarrow> onreadystatechange cfg readyState status = ([], Inr ()))"
  using assms
  by (cases sc; cases ec)
     (simp_all add: onreadystatechange_def error_branch_def call_def)

theorem completion_callbacks_witness:
  "remote_option (config (ErrorLogger 7 [])) ''successCallback'' = Inr (JFun 0 ''function () {}'')
   \<and> remote_option (config (ErrorLogger 7 [])) ''errorCallback'' = Inr (JFun 1 ''function () {}'')
   \<and> (\<exists>g. ErrorCallback g \<in> set (fst (onreadystatechange (config (ErrorLogger 7 [])) 4 404)))
   \<and> \<not> (\<exists>f. SuccessCallback f \<in> set (fst (onreadystatechange (config (ErrorLogger 7 [])) 4 404)))
   \<and> length (fst (onreadystatechange (config (ErrorLogger 7 [])) 4 404)) \<le> 1
   \<and> onreadystatechange (config (ErrorLogger 7 [])) 3 404 = ([], Inr ())"
proof -
  have a: "remote_option (config (ErrorLogger 7 [])) ''successCallback''
             = Inr (JFun 0 ''function () {}'')"
    by (simp add: remote_option_def ErrorLogger_def property_def)
  have b: "remote_option (config (ErrorLogger 7 [])) ''errorCallback''
             = Inr (JFun 1 ''function () {}'')"
    by (simp add: remote_option_def ErrorLogger_def property_def)
  show ?thesis
    using a b completion_callbacks [OF a b, of 404 3] by simp
qed

text \<open>
  The claim as stated takes every status of the 200 class for a success. The status 201
  is in that class and the default success callback is configured, yet the handler
  invokes the error callback and not the success callback.
\<close>

theorem status_201_counterexample:
  "(200::nat) \<le> 201 \<and> (201::nat) < 300
   \<and> remote_option (config (ErrorLogger 7 [])) ''successCallback'' = Inr (JFun 0 ''function () {}'')
   \<and> onreadystatechange (config (ErrorLogger 7 [])) 4 201 = ([ErrorCallback 1], Inr ())"
  by (simp add: onreadystatechange_def error_branch_def call_def remote_option_def
      ErrorLogger_def property_def)

text \<open>
  Claim C2. When remote logging is enabled and the configured URL is \<^verbatim>\<open>null\<close> (or any
  other falsy value), \<^verbatim>\<open>_remoteLogging\<close> throws the configuration error with no effect
  at all before it, and the listener that called it ends with the same error, having
  opened and sent no request.
\<close>

theorem missing_url_raises_before_network:
  assumes "remote_option (config s) ''enable'' = Inr en"
    and "truthy en"
    and "remote_option (config s) ''url'' = Inr url"
    and "\<not> truthy url"
    and "parseError ev s e0 = Inr e"
  shows "remoteLogging (config s) e = (e, [], Inl (Error ''Provide remote URL to log errors.''))
       \<and> snd (errorListener ev s e0) = Inl (Error ''Provide remote URL to log errors.'')
       \<and> filter is_network (fst (errorListener ev s e0)) = []"
  using assms
  by (simp add: remoteLogging_def errorListener_def showError_def Let_def)

theorem missing_url_raises_before_network_witness:
  "remote_option
     (config (init 0 (JObj [(''remoteLogging'', JObj [(''enable'', JBool True), (''url'', JNull)])])
        (ErrorLogger 7 []))) ''enable'' = Inr (JBool True)
   \<and> truthy (JBool True)
   \<and> remote_option
     (config (init 0 (JObj [(''remoteLogging'', JObj [(''enable'', JBool True), (''url'', JNull)])])
        (ErrorLogger 7 []))) ''url'' = Inr JNull
   \<and> \<not> truthy JNull
   \<and> snd (errorListener
        \<lparr>now = 5, date_string = ''d'', clientWidth = 800, clientHeight = 600,
          innerWidth = Some 1024, innerHeight = None, method_result = Inr \<circ> digits\<rparr>
        (init 0 (JObj [(''remoteLogging'', JObj [(''enable'', JBool True), (''url'', JNull)])])
           (ErrorLogger 7 []))
        \<lparr>ev_type = ''error'', ev_message = ''m'', filename = ''app.js'', lineno = 3, colno = 9,
          error = JNull\<rparr>)
       = Inl (Error ''Provide remote URL to log errors.'')
   \<and> filter is_network (fst (errorListener
        \<lparr>now = 5, date_string = ''d'', clientWidth = 800, clientHeight = 600,
          innerWidth = Some 1024, innerHeight = None, method_result = Inr \<circ> digits\<rparr>
        (init 0 (JObj [(''remoteLogging'', JObj [(''enable'', JBool True), (''url'', JNull)])])
           (ErrorLogger 7 []))
        \<lparr>ev_type = ''error'', ev_message = ''m'', filename = ''app.js'', lineno = 3, colno = 9,
          error = JNull\<rparr>)) = []"
proof -
  let ?s = "init 0 (JObj [(''remoteLogging'', JObj [(''enable'', JBool True), (''url'', JNull)])])
              (ErrorLogger 7 [])"
  let ?ev = "\<lparr>now = 5, date_string = ''d'', clientWidth = 800, clientHeight = 600,
          innerWidth = Some 1024, innerHeight = None, method_result = Inr \<circ> digits\<rparr>"
  let ?e0 = "\<lparr>ev_type = ''error'', ev_message = ''m'', filename = ''app.js'', lineno = 3,
          colno = 9, error = JNull\<rparr>"
  have cfg: "config ?s = [(''detailedErrors'', JBool True),
      (''remoteLogging'', JObj [(''enable'', JBool True), (''url'', JNull)])]"
    by (simp add: init_def ErrorLogger_def assign_def property_def)
  have a: "remote_option (config ?s) ''enable'' = Inr (JBool True)"
    by (simp add: cfg remote_option_def property_def)
  have b: "truthy (JBool True)" by simp
  have c: "remote_option (config ?s) ''url'' = Inr JNull"
    by (simp add: cfg remote_option_def property_def)
  have d: "\<not> truthy JNull" by simp
  have p: "parseError ?ev ?s ?e0 =
      Inr \<lparr>type = ''error'', message = ''m'', path = ''app.js'', line = 3, column = 9,
           stackTrace = [], viewport = getViewport ?ev, timeSpend = 5, datetime = ''d''\<rparr>"
    by (simp add: parseError_def stack_of_def getTimeOnPage_def init_def)
  show ?thesis
    using a b c d missing_url_raises_before_network [OF a b c d p] by simp
qed

text \<open>
  Claim C9. Whenever \<^verbatim>\<open>_remoteLogging\<close> throws the missing-URL error, the record it was
  given is as it was, its \<^verbatim>\<open>stackTrace\<close> still the raw string, and nothing was done to
  the outside: the conversion comes after the check.
\<close>

theorem remote_throw_leaves_record:
  "snd (snd (remoteLogging cfg e)) = Inl (Error ''Provide remote URL to log errors.'')
   \<Longrightarrow> fst (remoteLogging cfg e) = e
       \<and> stackTrace (fst (remoteLogging cfg e)) = stackTrace e
       \<and> fst (snd (remoteLogging cfg e)) = []"
  by (auto simp add: remoteLogging_def Let_def split: sum.splits if_splits)

theorem remote_throw_leaves_record_witness:
  "snd (snd (remoteLogging (config (ErrorLogger 7 []))
       \<lparr>type = ''error'', message = ''m'', path = ''app.js'', line = 3, column = 9,
         stackTrace = [CHR ''a'', CHR 0x0A, CHR ''b''], viewport = ''1024x600'', timeSpend = 5,
         datetime = ''d''\<rparr>))
     = Inl (Error ''Provide remote URL to log errors.'')
   \<and> stackTrace (fst (remoteLogging (config (ErrorLogger 7 []))
       \<lparr>type = ''error'', message = ''m'', path = ''app.js'', line = 3, column = 9,
         stackTrace = [CHR ''a'', CHR 0x0A, CHR ''b''], viewport = ''1024x600'', timeSpend = 5,
         datetime = ''d''\<rparr>))
     = [CHR ''a'', CHR 0x0A, CHR ''b'']"
proof -
  let ?e = "\<lparr>type = ''error'', message = ''m'', path = ''app.js'', line = 3, column = 9,
         stackTrace = [CHR ''a'', CHR 0x0A, CHR ''b''], viewport = ''1024x600'', timeSpend = 5,
         datetime = ''d''\<rparr>"
  have a: "snd (snd (remoteLogging (config (ErrorLogger 7 [])) ?e))
             = Inl (Error ''Provide remote URL to log errors.'')"
    by (simp add: remoteLogging_def remote_option_def ErrorLogger_def property_def)
  show ?thesis
    using a remote_throw_leaves_record [OF a] by simp
qed

section \<open>Properties of the session clock\<close>

text \<open>
  Claim C5, as the code has it. With the start time never set, computing the elapsed
  time raises nothing: \<^verbatim>\<open>null\<close> counts as 0, so the result is the current time in
  milliseconds since the epoch, and enrichment stores that number as \<^verbatim>\<open>timeSpend\<close>;
  the only way enrichment fails is the reading of the stack.
\<close>

theorem uninitialised_elapsed_time:
  "startTime s = None \<Longrightarrow>
     getTimeOnPage t s = t
   \<and> (case parseError ev s e0 of
        Inl x \<Rightarrow> stack_of (method_result ev) (error e0) = Inl x
      | Inr r \<Rightarrow> timeSpend r = now ev)"
  by (simp add: getTimeOnPage_def parseError_def split: sum.splits)

theorem uninitialised_elapsed_time_witness:
  "startTime (ErrorLogger 7 []) = None
   \<and> getTimeOnPage 1700000000000 (ErrorLogger 7 []) = 1700000000000"
  using uninitialised_elapsed_time [of "ErrorLogger 7 []" 1700000000000]
  by (simp add: ErrorLogger_def)

text \<open>
  The claim as stated has the operation fail. On a logger that was never initialised
  it returns the epoch time, and enrichment returns a record holding it.
\<close>

theorem uninitialised_counterexample:
  "getTimeOnPage 1700000000000 (ErrorLogger 7 []) = 1700000000000
   \<and> parseError
       \<lparr>now = 1700000000000, date_string = ''d'', clientWidth = 800, clientHeight = 600,
         innerWidth = Some 1024, innerHeight = None, method_result = Inr \<circ> digits\<rparr>
       (ErrorLogger 7 [])
       \<lparr>ev_type = ''error'', ev_message = ''m'', filename = ''app.js'', lineno = 3, colno = 9,
         error = JNull\<rparr>
     = Inr \<lparr>type = ''error'', message = ''m'', path = ''app.js'', line = 3, column = 9,
            stackTrace = [], viewport = ''1024x600'', timeSpend = 1700000000000,
            datetime = ''d''\<rparr>"
  by code_simp

section \<open>Properties of initialisation\<close>

lemma map_of_fold_update:
  "map_of (fold (\<lambda>key t. AList.update key (f key) t) ks target) k
     = (if k \<in> set ks then Some (f k) else map_of target k)"
  by (induction ks arbitrary: target) (simp_all add: update_conv')

lemma property_of_key:
  "k \<in> fst ` set source \<Longrightarrow> map_of source k = Some (property source k)"
  by (cases "map_of source k") (auto simp add: property_def map_of_eq_None_iff)

lemma map_of_assign:
  "map_of (assign target source) k
     = (case map_of source k of None \<Rightarrow> map_of target k | Some v \<Rightarrow> Some v)"
proof (cases "k \<in> fst ` set source")
  case True
  then show ?thesis
    by (simp add: assign_def map_of_fold_update property_of_key)
next
  case False
  then have "map_of source k = None"
    by (simp add: map_of_eq_None_iff)
  with False show ?thesis
    by (simp add: assign_def map_of_fold_update)
qed

text \<open>
  Claim C6. After \<^verbatim>\<open>init\<close> with an options object, every top-level key of the options
  holds the options' value and every other key its prior value. A \<^verbatim>\<open>remoteLogging\<close>
  value in the options therefore becomes the whole remote configuration: each remote
  option is then read from that value alone, and one it does not restate is gone.
\<close>

theorem init_replaces_top_level_keys:
  "map_of (config (init t (JObj ps) s)) k
     = (case map_of ps k of None \<Rightarrow> map_of (config s) k | Some v \<Rightarrow> Some v)
   \<and> (map_of ps ''remoteLogging'' = Some r \<longrightarrow>
        property (config (init t (JObj ps) s)) ''remoteLogging'' = r
      \<and> remote_option (config (init t (JObj ps) s)) k' = get r k')"
  by (simp add: init_def map_of_assign remote_option_def property_def)

theorem init_replaces_top_level_keys_witness:
  "map_of [(''remoteLogging'', JObj [(''enable'', JBool True)])] ''remoteLogging''
     = Some (JObj [(''enable'', JBool True)])
   \<and> remote_option
       (config (init 1 (JObj [(''remoteLogging'',
                  JObj [(''enable'', JBool True), (''url'', JStr ''http://logs.example/'')])])
          (ErrorLogger 7 []))) ''url'' = Inr (JStr ''http://logs.example/'')
   \<and> remote_option
       (config (init 2 (JObj [(''remoteLogging'', JObj [(''enable'', JBool True)])])
          (init 1 (JObj [(''remoteLogging'',
                     JObj [(''enable'', JBool True), (''url'', JStr ''http://logs.example/'')])])
             (ErrorLogger 7 [])))) ''url'' = Inr JUndefined
   \<and> remote_option
       (config (init 2 (JObj [(''remoteLogging'', JObj [(''enable'', JBool True)])])
          (init 1 (JObj [(''remoteLogging'',
                     JObj [(''enable'', JBool True), (''url'', JStr ''http://logs.example/'')])])
             (ErrorLogger 7 [])))) ''successCallback'' = Inr JUndefined
   \<and> map_of
       (config (init 2 (JObj [(''remoteLogging'', JObj [(''enable'', JBool True)])])
          (init 1 (JObj [(''remoteLogging'',
                     JObj [(''enable'', JBool True), (''url'', JStr ''http://logs.example/'')])])
             (ErrorLogger 7 [])))) ''detailedErrors'' = Some (JBool True)"
proof -
  let ?r1 = "JObj [(''enable'', JBool True), (''url'', JStr ''http://logs.example/'')]"
  let ?r2 = "JObj [(''enable'', JBool True)]"
  let ?o1 = "[(''remoteLogging'', ?r1)]"
  let ?o2 = "[(''remoteLogging'', ?r2)]"
  let ?s1 = "init 1 (JObj ?o1) (ErrorLogger 7 [])"
  have a: "map_of ?o1 ''remoteLogging'' = Some ?r1" by simp
  have b: "map_of ?o2 ''remoteLogging'' = Some ?r2" by simp
  have c: "map_of (config (ErrorLogger 7 [])) ''detailedErrors'' = Some (JBool True)"
    by (simp add: ErrorLogger_def)
  have k1: "remote_option (config ?s1) ''url'' = Inr (JStr ''http://logs.example/'')"
    using a init_replaces_top_level_keys
            [of 1 ?o1 "ErrorLogger 7 []" "''detailedErrors''" ?r1 "''url''"]
    by (simp add: property_def)
  have k2: "remote_option (config (init 2 (JObj ?o2) ?s1)) ''url'' = Inr JUndefined"
    using b init_replaces_top_level_keys [of 2 ?o2 ?s1 "''detailedErrors''" ?r2 "''url''"]
    by (simp add: property_def)
  have k3: "remote_option (config (init 2 (JObj ?o2) ?s1)) ''successCallback'' = Inr JUndefined"
    using b init_replaces_top_level_keys
            [of 2 ?o2 ?s1 "''detailedErrors''" ?r2 "''successCallback''"]
    by (simp add: property_def)
  have k4: "map_of (config ?s1) ''detailedErrors'' = Some (JBool True)"
    using c init_replaces_top_level_keys
            [of 1 ?o1 "ErrorLogger 7 []" "''detailedErrors''" ?r1 "''url''"]
    by simp
  have k5: "map_of (config (init 2 (JObj ?o2) ?s1)) ''detailedErrors'' = Some (JBool True)"
    using k4 init_replaces_top_level_keys [of 2 ?o2 ?s1 "''detailedErrors''" ?r2 "''url''"]
    by simp
  show ?thesis
    using b k1 k2 k3 k5 by blast
qed

lemma handler_init [simp]: "handler (init t options s) = handler s"
  by (simp add: init_def)

lemma handler_inits [simp]: "handler (inits calls s) = handler s"
  by (induction calls arbitrary: s) (simp_all add: inits_def)











section \<open>Properties of the stack-trace serialisation\<close>

text \<open>
  What \<open>split_lines\<close> returns is the split of the string at its line feeds: joining
  the parts with line feeds gives the string back, and no part holds a line feed.
\<close>

lemma split_lines_not_empty: "split_lines s \<noteq> []"
  by (induction s) (auto split: list.splits)

lemma join_Cons: "ls \<noteq> [] \<Longrightarrow> join sep (l # ls) = l @ sep @ join sep ls"
  by (cases ls) simp_all

lemma join_split_lines: "join [CHR 0x0A] (split_lines s) = s"
proof (induction s)
  case Nil
  show ?case by simp
next
  case (Cons c cs)
  obtain l ls where sp: "split_lines cs = l # ls"
    using split_lines_not_empty [of cs] by (cases "split_lines cs") auto
  show ?case
  proof (cases "c = CHR 0x0A")
    case True
    then show ?thesis
      using Cons.IH by (simp add: join_Cons split_lines_not_empty)
  next
    case False
    then show ?thesis
      using Cons.IH sp by (cases ls) simp_all
  qed
qed

lemma split_lines_no_newline: "l \<in> set (split_lines s) \<Longrightarrow> CHR 0x0A \<notin> set l"
  by (induction s arbitrary: l) (auto split: if_splits list.splits)

text \<open>
  Claim C8, as the code has it. With a URL configured, \<^verbatim>\<open>_remoteLogging\<close> replaces the
  record's \<^verbatim>\<open>stackTrace\<close> by a string, the JSON text of the array of the raw stack's
  lines, and then serialises the record: the body sent carries \<^verbatim>\<open>stackTrace\<close> as a JSON
  string holding that text, not as a JSON array. For the raw stack of the three lines
  \<open>line1\<close>, \<open>line2\<close>, \<open>line3\<close> the text is \<^verbatim>\<open>["line1","line2","line3"]\<close>.
\<close>

theorem remote_stackTrace_is_json_text:
  assumes "remote_option cfg ''url'' = Inr url"
    and "truthy url"
  shows "stackTrace (fst (remoteLogging cfg e))
           = stringify (JsonArr (map JsonStr (split_lines (stackTrace e))))
       \<and> fst (snd (remoteLogging cfg e))
           = [XhrOpen ''POST'' url True,
              XhrSetRequestHeader ''Content-type'' ''application/json;charset=UTF-8'',
              XhrSend (stringify (JsonObj
                [(''type'', JsonStr (type e)),
                 (''message'', JsonStr (message e)),
                 (''path'', JsonStr (path e)),
                 (''line'', JsonNum (line e)),
                 (''column'', JsonNum (column e)),
                 (''stackTrace'',
                    JsonStr (stringify (JsonArr (map JsonStr (split_lines (stackTrace e)))))),
                 (''viewport'', JsonStr (viewport e)),
                 (''timeSpend'', JsonNum (timeSpend e)),
                 (''datetime'', JsonStr (datetime e))]))]
       \<and> stringify (JsonArr (map JsonStr
            (split_lines (''line1'' @ [CHR 0x0A] @ ''line2'' @ [CHR 0x0A] @ ''line3''))))
           = [CHR ''['', CHR 0x22] @ ''line1'' @ [CHR 0x22, CHR '','', CHR 0x22] @ ''line2''
               @ [CHR 0x22, CHR '','', CHR 0x22] @ ''line3'' @ [CHR 0x22, CHR '']'']"
proof -
  have lit: "stringify (JsonArr (map JsonStr
            (split_lines (''line1'' @ [CHR 0x0A] @ ''line2'' @ [CHR 0x0A] @ ''line3''))))
           = [CHR ''['', CHR 0x22] @ ''line1'' @ [CHR 0x22, CHR '','', CHR 0x22] @ ''line2''
               @ [CHR 0x22, CHR '','', CHR 0x22] @ ''line3'' @ [CHR 0x22, CHR '']'']"
    by code_simp
  show ?thesis
    using assms lit by (simp add: remoteLogging_def record_json_def Let_def)
qed

theorem remote_stackTrace_is_json_text_witness:
  "remote_option [(''remoteLogging'', JObj [(''enable'', JBool True), (''url'', JStr ''http://logs.example/'')])] ''url''
      = Inr (JStr ''http://logs.example/'')
   \<and> truthy (JStr ''http://logs.example/'')
   \<and> stackTrace (fst (remoteLogging
        [(''remoteLogging'', JObj [(''enable'', JBool True), (''url'', JStr ''http://logs.example/'')])]
        \<lparr>type = ''error'', message = ''m'', path = ''app.js'', line = 3, column = 9,
          stackTrace = ''line1'' @ [CHR 0x0A] @ ''line2'' @ [CHR 0x0A] @ ''line3'',
          viewport = ''1024x600'', timeSpend = 5, datetime = ''d''\<rparr>))
       = [CHR ''['', CHR 0x22] @ ''line1'' @ [CHR 0x22, CHR '','', CHR 0x22] @ ''line2''
               @ [CHR 0x22, CHR '','', CHR 0x22] @ ''line3'' @ [CHR 0x22, CHR '']'']"
proof -
  let ?cfg = "[(''remoteLogging'', JObj [(''enable'', JBool True), (''url'', JStr ''http://logs.example/'')])]"
  let ?e = "\<lparr>type = ''error'', message = ''m'', path = ''app.js'', line = 3, column = 9,
          stackTrace = ''line1'' @ [CHR 0x0A] @ ''line2'' @ [CHR 0x0A] @ ''line3'',
          viewport = ''1024x600'', timeSpend = 5, datetime = ''d''\<rparr>"
  have a: "remote_option ?cfg ''url'' = Inr (JStr ''http://logs.example/'')"
    by (simp add: remote_option_def property_def)
  have b: "truthy (JStr ''http://logs.example/'')" by simp
  note t = remote_stackTrace_is_json_text [OF a b, of ?e]
  have k: "stackTrace (fst (remoteLogging ?cfg ?e))
       = [CHR ''['', CHR 0x22] @ ''line1'' @ [CHR 0x22, CHR '','', CHR 0x22] @ ''line2''
               @ [CHR 0x22, CHR '','', CHR 0x22] @ ''line3'' @ [CHR 0x22, CHR '']'']"
    using conjunct1 [OF t] conjunct2 [OF conjunct2 [OF t]] by simp
  show ?thesis using a b k by blast
qed

text \<open>
  The claim as stated has the array itself in the payload. The body sent for the
  three-line stack holds the string, and differs from the body that holds the array.
\<close>

theorem stackTrace_array_counterexample:
  "fst (snd (remoteLogging
        [(''remoteLogging'', JObj [(''enable'', JBool True), (''url'', JStr ''http://logs.example/'')])]
        \<lparr>type = ''error'', message = ''m'', path = ''app.js'', line = 3, column = 9,
          stackTrace = ''line1'' @ [CHR 0x0A] @ ''line2'' @ [CHR 0x0A] @ ''line3'',
          viewport = ''1024x600'', timeSpend = 5, datetime = ''d''\<rparr>))
     = [XhrOpen ''POST'' (JStr ''http://logs.example/'') True,
        XhrSetRequestHeader ''Content-type'' ''application/json;charset=UTF-8'',
        XhrSend (stringify (JsonObj
          [(''type'', JsonStr ''error''),
           (''message'', JsonStr ''m''),
           (''path'', JsonStr ''app.js''),
           (''line'', JsonNum 3),
           (''column'', JsonNum 9),
           (''stackTrace'', JsonStr ([CHR ''['', CHR 0x22] @ ''line1'' @ [CHR 0x22, CHR '','', CHR 0x22]
               @ ''line2'' @ [CHR 0x22, CHR '','', CHR 0x22] @ ''line3'' @ [CHR 0x22, CHR '']''])),
           (''viewport'', JsonStr ''1024x600''),
           (''timeSpend'', JsonNum 5),
           (''datetime'', JsonStr ''d'')]))]
   \<and> stringify (JsonObj
          [(''type'', JsonStr ''error''),
           (''message'', JsonStr ''m''),
           (''path'', JsonStr ''app.js''),
           (''line'', JsonNum 3),
           (''column'', JsonNum 9),
           (''stackTrace'', JsonStr ([CHR ''['', CHR 0x22] @ ''line1'' @ [CHR 0x22, CHR '','', CHR 0x22]
               @ ''line2'' @ [CHR 0x22, CHR '','', CHR 0x22] @ ''line3'' @ [CHR 0x22, CHR '']''])),
           (''viewport'', JsonStr ''1024x600''),
           (''timeSpend'', JsonNum 5),
           (''datetime'', JsonStr ''d'')])
     \<noteq> stringify (JsonObj
          [(''type'', JsonStr ''error''),
           (''message'', JsonStr ''m''),
           (''path'', JsonStr ''app.js''),
           (''line'', JsonNum 3),
           (''column'', JsonNum 9),
           (''stackTrace'', JsonArr [JsonStr ''line1'', JsonStr ''line2'', JsonStr ''line3'']),
           (''viewport'', JsonStr ''1024x600''),
           (''timeSpend'', JsonNum 5),
           (''datetime'', JsonStr ''d'')])"
  by code_simp


text \<open>
  Claim C10, as the code has it. For an event whose \<^verbatim>\<open>error\<close> attribute is absent
  (falsy), enrichment succeeds with the empty string as \<^verbatim>\<open>stackTrace\<close>; sent to the remote
  sink with a URL configured, the record's \<^verbatim>\<open>stackTrace\<close> becomes the four-character
  string \<^verbatim>\<open>[""]\<close>, the JSON text of an array of one empty string and not of the empty
  array, and the body carries it as a JSON string.
\<close>

theorem no_error_object_stackTrace:
  assumes "\<not> truthy (error e0)"
    and "remote_option cfg ''url'' = Inr url"
    and "truthy url"
  shows "(case parseError ev s e0 of
            Inl x \<Rightarrow> False
          | Inr r \<Rightarrow>
              stackTrace r = []
            \<and> stackTrace (fst (remoteLogging cfg r)) = [CHR ''['', CHR 0x22, CHR 0x22, CHR '']'']
            \<and> fst (snd (remoteLogging cfg r))
                = [XhrOpen ''POST'' url True,
                   XhrSetRequestHeader ''Content-type'' ''application/json;charset=UTF-8'',
                   XhrSend (stringify (JsonObj
                     [(''type'', JsonStr (ev_type e0)),
                      (''message'', JsonStr (ev_message e0)),
                      (''path'', JsonStr (filename e0)),
                      (''line'', JsonNum (lineno e0)),
                      (''column'', JsonNum (colno e0)),
                      (''stackTrace'', JsonStr [CHR ''['', CHR 0x22, CHR 0x22, CHR '']'']),
                      (''viewport'', JsonStr (getViewport ev)),
                      (''timeSpend'', JsonNum (getTimeOnPage (now ev) s)),
                      (''datetime'', JsonStr (date_string ev))]))])"
proof -
  have lit: "stringify (JsonArr (map JsonStr (split_lines []))) = [CHR ''['', CHR 0x22, CHR 0x22, CHR '']'']"
    by (simp add: json_quote_def)
  show ?thesis
    using assms lit
    by (simp add: parseError_def stack_of_def remoteLogging_def record_json_def Let_def)
qed

theorem no_error_object_stackTrace_witness:
  "\<not> truthy (error \<lparr>ev_type = ''error'', ev_message = ''m'', filename = ''app.js'', lineno = 3,
                    colno = 9, error = JNull\<rparr>)
   \<and> remote_option [(''remoteLogging'', JObj [(''enable'', JBool True), (''url'', JStr ''http://logs.example/'')])] ''url''
      = Inr (JStr ''http://logs.example/'')
   \<and> truthy (JStr ''http://logs.example/'')
   \<and> (case parseError
         \<lparr>now = 5, date_string = ''d'', clientWidth = 800, clientHeight = 600,
           innerWidth = Some 1024, innerHeight = None, method_result = Inr \<circ> digits\<rparr>
         (ErrorLogger 7 [])
         \<lparr>ev_type = ''error'', ev_message = ''m'', filename = ''app.js'', lineno = 3,
           colno = 9, error = JNull\<rparr> of
         Inl x \<Rightarrow> False
       | Inr r \<Rightarrow>
           stackTrace r = []
         \<and> stackTrace (fst (remoteLogging
              [(''remoteLogging'', JObj [(''enable'', JBool True), (''url'', JStr ''http://logs.example/'')])] r))
             = [CHR ''['', CHR 0x22, CHR 0x22, CHR '']''])"
proof -
  let ?cfg = "[(''remoteLogging'', JObj [(''enable'', JBool True), (''url'', JStr ''http://logs.example/'')])]"
  let ?ev = "\<lparr>now = 5, date_string = ''d'', clientWidth = 800, clientHeight = 600,
           innerWidth = Some 1024, innerHeight = None, method_result = Inr \<circ> digits\<rparr>"
  let ?e0 = "\<lparr>ev_type = ''error'', ev_message = ''m'', filename = ''app.js'', lineno = 3,
           colno = 9, error = JNull\<rparr>"
  have a: "\<not> truthy (error ?e0)" by simp
  have b: "remote_option ?cfg ''url'' = Inr (JStr ''http://logs.example/'')"
    by (simp add: remote_option_def property_def)
  have c: "truthy (JStr ''http://logs.example/'')" by simp
  note t = no_error_object_stackTrace [OF a b c, of ?ev "ErrorLogger 7 []"]
  have k: "(case parseError ?ev (ErrorLogger 7 []) ?e0 of
         Inl x \<Rightarrow> False
       | Inr r \<Rightarrow>
           stackTrace r = []
         \<and> stackTrace (fst (remoteLogging ?cfg r)) = [CHR ''['', CHR 0x22, CHR 0x22, CHR '']''])"
    using t by (cases "parseError ?ev (ErrorLogger 7 []) ?e0") simp_all
  show ?thesis using a b c k by blast
qed

text \<open>
  The claim as stated has the one-element array itself in the payload. The body sent
  holds the string, and differs from the body that holds the array.
\<close>

theorem empty_stack_array_counterexample:
  "fst (snd (remoteLogging
        [(''remoteLogging'', JObj [(''enable'', JBool True), (''url'', JStr ''http://logs.example/'')])]
        \<lparr>type = ''error'', message = ''m'', path = ''app.js'', line = 3, column = 9,
          stackTrace = [], viewport = ''1024x600'', timeSpend = 5, datetime = ''d''\<rparr>))
     = [XhrOpen ''POST'' (JStr ''http://logs.example/'') True,
        XhrSetRequestHeader ''Content-type'' ''application/json;charset=UTF-8'',
        XhrSend (stringify (JsonObj
          [(''type'', JsonStr ''error''),
           (''message'', JsonStr ''m''),
           (''path'', JsonStr ''app.js''),
           (''line'', JsonNum 3),
           (''column'', JsonNum 9),
           (''stackTrace'', JsonStr [CHR ''['', CHR 0x22, CHR 0x22, CHR '']'']),
           (''viewport'', JsonStr ''1024x600''),
           (''timeSpend'', JsonNum 5),
           (''datetime'', JsonStr ''d'')]))]
   \<and> stringify (JsonObj
          [(''type'', JsonStr ''error''),
           (''message'', JsonStr ''m''),
           (''path'', JsonStr ''app.js''),
           (''line'', JsonNum 3),
           (''column'', JsonNum 9),
           (''stackTrace'', JsonStr [CHR ''['', CHR 0x22, CHR 0x22, CHR '']'']),
           (''viewport'', JsonStr ''1024x600''),
           (''timeSpend'', JsonNum 5),
           (''datetime'', JsonStr ''d'')])
     \<noteq> stringify (JsonObj
          [(''type'', JsonStr ''error''),
           (''message'', JsonStr ''m''),
           (''path'', JsonStr ''app.js''),
           (''line'', JsonNum 3),
           (''column'', JsonNum 9),
           (''stackTrace'', JsonArr [JsonStr []]),
           (''viewport'', JsonStr ''1024x600''),
           (''timeSpend'', JsonNum 5),
           (''datetime'', JsonStr ''d'')])"
  by code_simp

end
